theory Spec2Isabelle
  imports Main "HOL-Library.Sublist"
begin

section \<open>JavaScript values as the skill sees them\<close>

text \<open>
  The skill (src/gouldner/TheBus/src/index.js, the TheBusHonolulu revision) handles two
  kinds of dynamically typed data: the slot payload of an intent (JSON: a string, null,
  or no property at all) and the fields of the deserialized arrivals feed (what xml2js
  yields for text-only elements: no property, a string, or an array of such values).
  \<open>jsval\<close> holds exactly these shapes. Strings are sequences of code units below 256.
\<close>

datatype jsval = Undefined | Null | Str string | Arr "jsval list"

datatype jsnum = NaN | Num int

text \<open>
  \<open>TypeError\<close> is the one exception the modelled code can raise. \<open>OutsideModel\<close> is not an
  exception: it ends a run at a comparison whose operand the model does not evaluate (see
  \<open>toNumber\<close> below), so that no statement is made about such a run.
\<close>

datatype error = TypeError | OutsideModel

text \<open>\<open>Array.prototype.join\<close> with the default separator, on already converted elements.\<close>

fun joinComma :: "string list \<Rightarrow> string" where
  "joinComma [] = []"
| "joinComma [s] = s"
| "joinComma (s # t # ss) = s @ '','' @ joinComma (t # ss)"

text \<open>
  \<open>ToString\<close>, as string concatenation with \<open>+\<close> applies it: an array is joined with
  commas, and an undefined or null element of an array contributes the empty string.
\<close>

fun toString :: "jsval \<Rightarrow> string" where
  "toString Undefined = ''undefined''"
| "toString Null = ''null''"
| "toString (Str s) = s"
| "toString (Arr xs) =
     joinComma (map (\<lambda>x. if x = Undefined \<or> x = Null then [] else toString x) xs)"

text \<open>\<open>ToBoolean\<close>: every array is truthy, a string is truthy unless it is empty.\<close>

fun truthy :: "jsval \<Rightarrow> bool" where
  "truthy Undefined = False"
| "truthy Null = False"
| "truthy (Str s) = (s \<noteq> [])"
| "truthy (Arr xs) = True"

text \<open>White space and line terminators among the code units below 256.\<close>

definition isWhite :: "char \<Rightarrow> bool" where
  "isWhite c = (c \<in> set [CHR 0x09, CHR 0x0A, CHR 0x0B, CHR 0x0C, CHR 0x0D, CHR 0x20, CHR 0xA0])"

text \<open>The value of a digit in a radix of at most 36, if the character is one.\<close>

definition digitVal :: "char \<Rightarrow> nat option" where
  "digitVal c =
     (let n = of_char c :: nat in
      if 48 \<le> n \<and> n \<le> 57 then Some (n - 48)
      else if 97 \<le> n \<and> n \<le> 122 then Some (n - 87)
      else if 65 \<le> n \<and> n \<le> 90 then Some (n - 55)
      else None)"

definition isDigit :: "nat \<Rightarrow> char \<Rightarrow> bool" where
  "isDigit radix c = (case digitVal c of None \<Rightarrow> False | Some d \<Rightarrow> d < radix)"

definition digitsValue :: "nat \<Rightarrow> string \<Rightarrow> int" where
  "digitsValue radix ds =
     foldl (\<lambda>acc c. acc * int radix + int (case digitVal c of None \<Rightarrow> 0 | Some d \<Rightarrow> d)) 0 ds"

text \<open>
  \<open>parseInt(v)\<close> with no radix argument: the argument is converted to a string, leading
  white space and one sign are dropped, a \<open>0x\<close>/\<open>0X\<close> prefix selects radix 16, and the
  longest prefix of digits is read; with no digit the result is NaN. \<open>Num n\<close> stands for
  the Number nearest to the integer \<open>n\<close>; the handlers only test it with \<open>isNaN\<close>.
\<close>

definition parseInt :: "jsval \<Rightarrow> jsnum" where
  "parseInt v =
     (let s = dropWhile isWhite (toString v);
          neg = (take 1 s = ''-'');
          s1 = (if take 1 s = ''-'' \<or> take 1 s = ''+'' then drop 1 s else s);
          hex = (take 2 s1 = ''0x'' \<or> take 2 s1 = ''0X'');
          radix = (if hex then 16 else 10);
          s2 = (if hex then drop 2 s1 else s1);
          ds = takeWhile (isDigit radix) s2
      in if ds = [] then NaN
         else Num ((if neg then - 1 else 1) * digitsValue radix ds))"

fun isNaN :: "jsnum \<Rightarrow> bool" where
  "isNaN NaN = True"
| "isNaN (Num n) = False"

text \<open>
  \<open>ToNumber\<close>, for the comparisons \<open>arrival.canceled <= 0\<close> and \<open>arrival.canceled == -1\<close>.
  The model evaluates it on undefined, null and the strings that are, between optional
  white space, empty or a signed decimal integer, which covers the flag values 0, 1 and
  -1 of the feed. Every other string is either NaN or denotes a floating-point number;
  the model does not decide which and answers \<open>None\<close>. An array is converted through its
  string.
\<close>

definition trim :: "string \<Rightarrow> string" where
  "trim s = rev (dropWhile isWhite (rev (dropWhile isWhite s)))"

definition strToNumber :: "string \<Rightarrow> jsnum option" where
  "strToNumber s =
     (let t = trim s;
          neg = (take 1 t = ''-'');
          ds = (if take 1 t = ''-'' \<or> take 1 t = ''+'' then drop 1 t else t)
      in if t = [] then Some (Num 0)
         else if ds \<noteq> [] \<and> list_all (isDigit 10) ds
              then Some (Num ((if neg then - 1 else 1) * digitsValue 10 ds))
         else None)"

fun toNumber :: "jsval \<Rightarrow> jsnum option" where
  "toNumber Undefined = Some NaN"
| "toNumber Null = Some (Num 0)"
| "toNumber (Str s) = strToNumber s"
| "toNumber (Arr xs) = strToNumber (toString (Arr xs))"

text \<open>\<open>x <= 0\<close> and \<open>x == -1\<close> on a Number: both are false on NaN.\<close>

fun leZero :: "jsnum \<Rightarrow> bool" where
  "leZero NaN = False"
| "leZero (Num n) = (n \<le> 0)"

fun eqMinusOne :: "jsnum \<Rightarrow> bool" where
  "eqMinusOne NaN = False"
| "eqMinusOne (Num n) = (n = - 1)"

text \<open>
  \<open>String.prototype.replace\<close> with a string pattern and a replacement without \<open>$\<close>:
  only the first occurrence of the pattern is replaced.
\<close>

fun replace :: "string \<Rightarrow> string \<Rightarrow> string \<Rightarrow> string" where
  "replace pat rep [] = (if pat = [] then rep else [])"
| "replace pat rep (c # cs) =
     (if take (length pat) (c # cs) = pat then rep @ drop (length pat) (c # cs)
      else c # replace pat rep cs)"

section \<open>The deserialized arrivals feed\<close>

text \<open>
  \<open>processXml\<close> hands the response body to the XML parser and works on the \<open>result\<close>
  the parser passes to its callback (the \<open>err\<close> argument is never read). The model
  starts from that value: \<open>None\<close> is an undefined or null result or property.
\<close>

record arrival =
  route :: jsval
  headsign :: jsval
  stopTime :: jsval
  estimated :: jsval
  canceled :: jsval

record stopTimes =
  stop :: jsval
  timestamp :: jsval
  arrival :: "arrival list option"

record result =
  stopTimes :: "stopTimes option"

text \<open>
  The global \<open>routes\<close> object: its own properties. A read \<open>routes[k]\<close> that finds no own
  property falls through to \<open>Object.prototype\<close>, whose properties are functions of at most
  two parameters, and the accessor \<open>__proto__\<close>, which yields the prototype object.
\<close>

type_synonym routes = "string \<rightharpoonup> jsval"

definition objectPrototypeFunctions :: "string list" where
  "objectPrototypeFunctions =
     [''constructor'', ''toString'', ''toLocaleString'', ''valueOf'', ''hasOwnProperty'',
      ''isPrototypeOf'', ''propertyIsEnumerable'', ''__defineGetter__'', ''__defineSetter__'',
      ''__lookupGetter__'', ''__lookupSetter__'']"

text \<open>\<open>v[0]\<close>: a TypeError on undefined and null, the first element or code unit otherwise.\<close>

fun element0 :: "jsval \<Rightarrow> error + jsval" where
  "element0 Undefined = Inl TypeError"
| "element0 Null = Inl TypeError"
| "element0 (Str s) = Inr (case s of [] \<Rightarrow> Undefined | c # _ \<Rightarrow> Str [c])"
| "element0 (Arr xs) = Inr (case xs of [] \<Rightarrow> Undefined | x # _ \<Rightarrow> x)"

text \<open>
  The first statement of the \<open>forEach\<close> callback, the aggregation of stop times by route:
  \<^verbatim>\<open>
  if (routes[arrival.route]) {
    if (routes[arrival.route].length <= 4) {
      routes[arrival.route].push(arrival.stopTime[0]);
    }
  } else {
      routes[arrival.route] = arrival.stopTime;
  }
  \<close>
  A truthy string or an inherited function has a length of at most 4 or not, and no
  \<open>push\<close>: the call raises a TypeError. \<open>Object.prototype\<close> itself is truthy and has no
  length, so the key \<open>__proto__\<close> changes nothing. The array stored under a route is the
  \<open>stopTime\<close> array of the first arrival of that route, so \<open>push\<close> grows that arrival's own
  array; the narration of an arrival is complete before a later arrival can do so, and
  the model keeps a copy.
\<close>

definition aggregate :: "arrival \<Rightarrow> routes \<Rightarrow> error + routes" where
  "aggregate a r =
     (let k = toString (route a) in
      case r k of
        Some v \<Rightarrow>
          (if truthy v then
             (case v of
                Arr xs \<Rightarrow>
                  (if length xs \<le> 4 then
                     (case element0 (stopTime a) of
                        Inl e \<Rightarrow> Inl e
                      | Inr x \<Rightarrow> Inr (r(k \<mapsto> Arr (xs @ [x]))))
                   else Inr r)
              | Str s \<Rightarrow> (if length s \<le> 4 then Inl TypeError else Inr r)
              | _ \<Rightarrow> Inr r)
           else Inr (r(k \<mapsto> stopTime a)))
      | None \<Rightarrow>
          (if k \<in> set objectPrototypeFunctions then Inl TypeError
           else if k = ''__proto__'' then Inr r
           else Inr (r(k \<mapsto> stopTime a))))"

text \<open>The variables of \<open>processXml\<close> that the callback updates.\<close>

record locals =
  speechOutput :: string
  foundCanceled :: bool
  foundArrival :: bool

definition newline :: string where
  "newline = [CHR 0x0A]"

text \<open>
  The body of the \<open>forEach\<close> callback, on one arrival. \<open>arrival.headsign.toString()\<close> raises
  a TypeError on an undefined or null headsign. The \<open>console.log\<close> calls only convert
  values to strings and are left out.
\<close>

definition forEachBody :: "arrival \<Rightarrow> routes \<times> locals \<Rightarrow> error + routes \<times> locals" where
  "forEachBody a st =
     (case st of (r, l) \<Rightarrow>
      case aggregate a r of
        Inl e \<Rightarrow> Inl e
      | Inr r' \<Rightarrow>
          if headsign a = Undefined \<or> headsign a = Null then Inl TypeError
          else
            let improvedHeadsign = replace ''UH'' ''University of Hawaii'' (toString (headsign a))
            in case toNumber (canceled a) of
                 None \<Rightarrow> Inl OutsideModel
               | Some c \<Rightarrow>
                   let l1 =
                         (if leZero c then
                            let s1 = speechOutput l @ '' Route '' @ toString (route a)
                                       @ '' heading to '' @ improvedHeadsign
                                       @ '' arriving at '' @ toString (stopTime a);
                                s2 = (if truthy (estimated a) then s1 @ '' estimated by GPS''
                                      else s1 @ '' scheduled time no GPS'');
                                s3 = (if eqMinusOne c
                                      then s2 @ '' was canceled not canceled anymore'' else s2)
                            in l\<lparr>speechOutput := s3, foundArrival := True\<rparr>
                          else l\<lparr>foundCanceled := True\<rparr>);
                       l2 =
                         (if \<not> foundArrival l1 then
                            (if foundCanceled l1
                             then l1\<lparr>speechOutput := speechOutput l1
                                        @ '' Sorry, only canceled arrivals were found.''\<rparr>
                             else l1\<lparr>speechOutput := speechOutput l1
                                        @ '' Sorry, no arrivals were returned.''\<rparr>)
                          else l1)
                   in Inr (r', l2\<lparr>speechOutput := speechOutput l2 @ ''.'' @ newline\<rparr>))"

text \<open>\<open>Array.prototype.forEach\<close> with that callback: in order, stopping at an exception.\<close>

fun forEach :: "arrival list \<Rightarrow> routes \<times> locals \<Rightarrow> error + routes \<times> locals" where
  "forEach [] st = Inr st"
| "forEach (a # as) st =
     (case forEachBody a st of Inl e \<Rightarrow> Inl e | Inr st' \<Rightarrow> forEach as st')"

text \<open>
  \<open>processXml\<close>, from the parser's result and the global \<open>routes\<close> to the narration and the
  updated \<open>routes\<close>. Reading a property of an undefined \<open>result\<close> or \<open>result.stopTimes\<close>
  raises a TypeError.
\<close>

definition processXml :: "result option \<Rightarrow> routes \<Rightarrow> error + string \<times> routes" where
  "processXml res r =
     (case res of
        None \<Rightarrow> Inl TypeError
      | Some result \<Rightarrow>
          (case stopTimes result of
             None \<Rightarrow> Inl TypeError
           | Some st \<Rightarrow>
               (case arrival st of
                  None \<Rightarrow>
                    Inr (''Sorry, no arrivals found for stop'' @ toString (stop st)
                           @ ''.  Are you sure this is a valid stop?'', r)
                | Some arrivals \<Rightarrow>
                    (case forEach arrivals
                            (r, \<lparr>speechOutput = ''Here are the arrivals for '' @ '' bus stop ''
                                                 @ toString (stop st) @ ''.'' @ newline,
                                 foundCanceled = False, foundArrival = False\<rparr>) of
                       Inl e \<Rightarrow> Inl e
                     | Inr (r', l) \<Rightarrow> Inr (speechOutput l, r')))))"

section \<open>Fetching and the intent handlers\<close>

text \<open>
  The calls the handlers make on the response object (AlexaSkill.js), with their
  arguments: \<open>ask(speech, reprompt)\<close>, \<open>tell(speech)\<close>,
  \<open>tellWithCard(speech, cardTitle, cardContent)\<close>.
\<close>

datatype response = ask string string | tell string | tellWithCard string string string

text \<open>
  What \<open>http.get\<close> leads to: the \<open>error\<close> event, or the \<open>end\<close> event of a response whose
  body the XML parser deserializes to the given result.
\<close>

datatype http = ErrorEvent | End "result option"

text \<open>
  The state that outlives a call: the stops for which \<open>http.get\<close> was called, in order,
  and the global \<open>routes\<close>. An exception that nothing catches ends the invocation, so a
  failed call returns no state.
\<close>

record world =
  requests :: "jsnum list"
  routes :: routes

definition makeTheBusCall :: "(jsnum \<Rightarrow> http) \<Rightarrow> jsnum \<Rightarrow> world \<Rightarrow> error + string \<times> world" where
  "makeTheBusCall server stopValue w =
     (let w1 = w\<lparr>requests := requests w @ [stopValue]\<rparr> in
      case server stopValue of
        ErrorEvent \<Rightarrow> Inr (''Sorry there was an error contacting the bus service'', w1)
      | End res \<Rightarrow>
          (case processXml res Map.empty of
             Inl e \<Rightarrow> Inl e
           | Inr (speech, r) \<Rightarrow> Inr (speech, w1\<lparr>routes := r\<rparr>)))"

definition responseCallback :: "string \<Rightarrow> response" where
  "responseCallback speech = tellWithCard speech ''TheBusHonolulu'' speech"

definition getFinalBusResponse ::
    "(jsnum \<Rightarrow> http) \<Rightarrow> jsnum \<Rightarrow> world \<Rightarrow> error + response \<times> world" where
  "getFinalBusResponse server stopValue w =
     (case makeTheBusCall server stopValue w of
        Inl e \<Rightarrow> Inl e
      | Inr (speech, w') \<Rightarrow> Inr (responseCallback speech, w'))"

text \<open>
  An intent as the handlers read it: \<open>intent.slots\<close>, \<open>intent.slots.Stop\<close> and
  \<open>intent.slots.Stop.value\<close>, each possibly missing. The session argument is never read.
\<close>

record slot =
  slotValue :: jsval

record slots =
  Stop :: "slot option"

record intent =
  slots :: "slots option"

definition handleStopDialogRequest ::
    "(jsnum \<Rightarrow> http) \<Rightarrow> intent \<Rightarrow> world \<Rightarrow> error + response \<times> world" where
  "handleStopDialogRequest server i w =
     (case slots i of
        None \<Rightarrow> Inl TypeError
      | Some ss \<Rightarrow>
          (case Stop ss of
             None \<Rightarrow>
               Inr (ask ''sorry, I did not hear the stop, please say that again''
                        ''please say the stop again'', w)
           | Some stop' \<Rightarrow>
               if slotValue stop' = Undefined \<or> slotValue stop' = Null
               then Inr (ask ''sorry, I did not hear the stop, please say that again''
                             ''please say the stop again'', w)
               else
                 let stopValue = parseInt (slotValue stop') in
                 if isNaN stopValue
                 then Inr (ask ''sorry, I did not hear the stop, please say that again''
                               ''please say the stop again'', w)
                 else getFinalBusResponse server stopValue w))"

definition handleOneshotBusRequest ::
    "(jsnum \<Rightarrow> http) \<Rightarrow> intent \<Rightarrow> world \<Rightarrow> error + response \<times> world" where
  "handleOneshotBusRequest server i w =
     (case slots i of
        None \<Rightarrow> Inl TypeError
      | Some ss \<Rightarrow>
          (case Stop ss of
             None \<Rightarrow> Inl TypeError
           | Some stopSlot \<Rightarrow>
               let stopValue = parseInt (slotValue stopSlot) in
               if isNaN stopValue
               then Inr (ask ''sorry, I did not hear the bus stop, please say that again''
                             ''please say the bus stop again'', w)
               else getFinalBusResponse server stopValue w))"

definition handleHelpRequest :: "response" where
  "handleHelpRequest =
     (let repromptText = ''Which stop would you like bus information for?'';
          speechOutput = ''I can lead you through providing a stop ''
            @ ''to get bus information, ''
            @ ''or you can simply open The Bus Honolulu and ask a question like, ''
            @ ''when will bus arrive at stop 255. ''
            @ ''Or you can say exit. ''
            @ repromptText
      in ask speechOutput repromptText)"

text \<open>The table \<open>intentHandlers\<close>, from the intent's name to its handler.\<close>

definition intentHandlers ::
    "string \<Rightarrow> ((jsnum \<Rightarrow> http) \<Rightarrow> intent \<Rightarrow> world \<Rightarrow> error + response \<times> world) option" where
  "intentHandlers n =
     (if n = ''OneshotBusIntent'' then Some handleOneshotBusRequest
      else if n = ''DialogBusIntent''
        then Some (\<lambda>server i w.
               case slots i of None \<Rightarrow> Inl TypeError
               | Some ss \<Rightarrow> handleStopDialogRequest server i w)
      else if n = ''AMAZON.HelpIntent'' then Some (\<lambda>server i w. Inr (handleHelpRequest, w))
      else if n = ''AMAZON.StopIntent'' then Some (\<lambda>server i w. Inr (tell ''Goodbye'', w))
      else if n = ''AMAZON.CancelIntent'' then Some (\<lambda>server i w. Inr (tell ''Goodbye'', w))
      else None)"

text \<open>
  Modelled from the spec: the host-facing reply. The response object that builds it is
  AlexaSkill.js, which is not among the sources; section 4.5 of the specification names
  what a reply carries: the speech, the reprompt of an ask, the card of a tell with its
  title, and whether the session ends.
\<close>

record reply =
  replySpeech :: string
  replyReprompt :: "string option"
  replyCard :: "(string \<times> string) option"
  shouldEndSession :: bool

text \<open>
  Modelled from the spec: the Response Renderer, from a call on the response object
  (AlexaSkill.js, not among the sources) to the reply. After section 4.5 of the
  specification: an ask keeps the session open and carries the reprompt; a tell ends the
  session; a card, when given, is attached with its title; speech is passed through
  verbatim.
\<close>

fun render :: "response \<Rightarrow> reply" where
  "render (ask speech reprompt) =
     \<lparr>replySpeech = speech, replyReprompt = Some reprompt, replyCard = None,
      shouldEndSession = False\<rparr>"
| "render (tell speech) =
     \<lparr>replySpeech = speech, replyReprompt = None, replyCard = None, shouldEndSession = True\<rparr>"
| "render (tellWithCard speech cardTitle cardContent) =
     \<lparr>replySpeech = speech, replyReprompt = None, replyCard = Some (cardTitle, cardContent),
      shouldEndSession = True\<rparr>"

section \<open>Evaluation rules and step lemmas\<close>

lemmas flag_defs = strToNumber_def trim_def isWhite_def isDigit_def digitVal_def digitsValue_def

lemmas feed_defs = processXml_def forEachBody_def aggregate_def objectPrototypeFunctions_def
  newline_def

lemmas handler_defs = handleStopDialogRequest_def handleOneshotBusRequest_def
  getFinalBusResponse_def makeTheBusCall_def responseCallback_def

lemmas parse_defs = parseInt_def isWhite_def isDigit_def digitVal_def digitsValue_def

text \<open>The callback returns exactly when none of its three partial steps fails.\<close>

lemma aggregate_fresh_route:
  assumes "r (toString (route a)) = None"
    and "toString (route a) \<notin> set objectPrototypeFunctions"
    and "toString (route a) \<noteq> ''__proto__''"
  shows "aggregate a r = Inr (r(toString (route a) \<mapsto> stopTime a))"
  using assms by (simp add: aggregate_def)

lemma forEachBody_returns:
  assumes "aggregate a r = Inr r1"
    and "headsign a \<noteq> Undefined" and "headsign a \<noteq> Null"
    and "toNumber (canceled a) = Some c"
  shows "\<exists>l'. forEachBody a (r, l) = Inr (r1, l')"
  using assms by (simp add: forEachBody_def Let_def)

text \<open>The record is skipped: only the flag, the fallback and the terminal change.\<close>

lemma forEachBody_skip:
  assumes "forEachBody a (r, l) = Inr (r', l')"
    and "toNumber (canceled a) = Some c" and "\<not> leZero c"
  shows "l' = l\<lparr>foundCanceled := True,
               speechOutput := speechOutput l
                 @ (if foundArrival l then [] else '' Sorry, only canceled arrivals were found.'')
                 @ ''.'' @ newline\<rparr>"
  using assms by (auto simp: forEachBody_def split: sum.splits if_splits)

text \<open>The record is narrated.\<close>

lemma forEachBody_narrate:
  assumes "forEachBody a (r, l) = Inr (r', l')"
    and "toNumber (canceled a) = Some c" and "leZero c"
  shows "l' = l\<lparr>foundArrival := True,
               speechOutput := speechOutput l @ '' Route '' @ toString (route a)
                 @ '' heading to '' @ replace ''UH'' ''University of Hawaii'' (toString (headsign a))
                 @ '' arriving at '' @ toString (stopTime a)
                 @ (if truthy (estimated a) then '' estimated by GPS''
                    else '' scheduled time no GPS'')
                 @ (if eqMinusOne c then '' was canceled not canceled anymore'' else [])
                 @ ''.'' @ newline\<rparr>"
  using assms by (auto simp: forEachBody_def Let_def split: sum.splits if_splits)

lemma forEachBody_flag:
  assumes "forEachBody a (r, l) = Inr (r', l')"
  obtains c where "toNumber (canceled a) = Some c"
  using assms by (auto simp: forEachBody_def split: sum.splits if_splits option.splits)

text \<open>
  After the callback one of the two flags is set, so the sentence
  \<open>Sorry, no arrivals were returned.\<close> can never be appended where the test stands.
\<close>

lemma forEachBody_found:
  assumes "forEachBody a (r, l) = Inr (r', l')"
  shows "foundArrival l' \<or> foundCanceled l'"
proof -
  from assms obtain c where c: "toNumber (canceled a) = Some c"
    by (rule forEachBody_flag)
  show ?thesis
  proof (cases "leZero c")
    case True
    from forEachBody_narrate [OF assms c True] show ?thesis by simp
  next
    case False
    from forEachBody_skip [OF assms c False] show ?thesis by simp
  qed
qed

lemma forEachBody_prefix:
  assumes "forEachBody a (r, l) = Inr (r', l')"
  shows "prefix (speechOutput l) (speechOutput l')"
proof -
  from assms obtain c where c: "toNumber (canceled a) = Some c"
    by (rule forEachBody_flag)
  show ?thesis
  proof (cases "leZero c")
    case True
    from forEachBody_narrate [OF assms c True] show ?thesis by simp
  next
    case False
    from forEachBody_skip [OF assms c False] show ?thesis by simp
  qed
qed

lemma forEach_prefix:
  "forEach as (r, l) = Inr (r', l') \<Longrightarrow> prefix (speechOutput l) (speechOutput l')"
proof (induction as arbitrary: r l)
  case Nil
  then show ?case by simp
next
  case (Cons a as)
  then obtain r1 l1 where step: "forEachBody a (r, l) = Inr (r1, l1)"
    and rest: "forEach as (r1, l1) = Inr (r', l')"
    by (auto split: sum.splits)
  from forEachBody_prefix [OF step] Cons.IH [OF rest]
  show ?case by (rule prefix_order.trans)
qed

text \<open>
  On records that are all skipped the fallback sentence is appended once per record: the
  test of \<open>foundArrival\<close> stands inside the callback, not after the loop.
\<close>

lemma forEach_all_skipped:
  assumes "forEach as (r, l) = Inr (r', l')"
    and "\<forall>a \<in> set as. \<exists>c. toNumber (canceled a) = Some c \<and> \<not> leZero c"
    and "\<not> foundArrival l"
  shows "speechOutput l' = speechOutput l
           @ concat (replicate (length as)
               ('' Sorry, only canceled arrivals were found.'' @ ''.'' @ newline))
         \<and> \<not> foundArrival l'"
  using assms
proof (induction as arbitrary: r l)
  case Nil
  then show ?case by simp
next
  case (Cons a as)
  then obtain r1 l1 where step: "forEachBody a (r, l) = Inr (r1, l1)"
    and rest: "forEach as (r1, l1) = Inr (r', l')"
    by (auto split: sum.splits)
  from Cons.prems(2) obtain c where c: "toNumber (canceled a) = Some c" "\<not> leZero c"
    by auto
  from forEachBody_skip [OF step c] Cons.prems(3)
  have l1: "speechOutput l1 = speechOutput l
              @ '' Sorry, only canceled arrivals were found.'' @ ''.'' @ newline"
    and nf: "\<not> foundArrival l1"
    by simp_all
  from Cons.prems(2) have "\<forall>a \<in> set as. \<exists>c. toNumber (canceled a) = Some c \<and> \<not> leZero c"
    by simp
  from Cons.IH [OF rest this nf] l1 show ?case by simp
qed

text \<open>With an empty array of arrivals the loop never runs and no fallback is appended.\<close>

lemma processXml_no_records:
  "processXml (Some \<lparr>stopTimes = Some \<lparr>stop = s, timestamp = t, arrival = Some []\<rparr>\<rparr>) r
     = Inr (''Here are the arrivals for  bus stop '' @ toString s @ ''.'' @ newline, r)"
  by (simp add: processXml_def)

lemma processXml_with_arrivals_prefix:
  assumes "arrival st = Some as"
    and "processXml (Some \<lparr>stopTimes = Some st\<rparr>) r = Inr (n, r')"
  shows "prefix ''Here are the arrivals for '' n"
proof -
  from assms obtain l where
    f: "forEach as (r, \<lparr>speechOutput = ''Here are the arrivals for '' @ '' bus stop ''
                                         @ toString (stop st) @ ''.'' @ newline,
                        foundCanceled = False, foundArrival = False\<rparr>) = Inr (r', l)"
    and n: "n = speechOutput l"
    by (auto simp: processXml_def split: sum.splits)
  from forEach_prefix [OF f] n show ?thesis
    by (auto simp: prefix_def)
qed

text \<open>
  The one-shot handler reads \<open>stopSlot.value\<close> with no test of \<open>stopSlot\<close>: without the slot
  it raises, where the dialog handler asks again.
\<close>

lemma oneshot_absent_slot_raises:
  "handleOneshotBusRequest server \<lparr>slots = Some \<lparr>Stop = None\<rparr>\<rparr> w = Inl TypeError"
  by (simp add: handleOneshotBusRequest_def)

lemma getFinalBusResponse_requests:
  assumes "getFinalBusResponse server stopValue w = Inr (resp, w')"
  shows "requests w' = requests w @ [stopValue]
       \<and> (\<exists>speech. resp = tellWithCard speech ''TheBusHonolulu'' speech)"
  using assms
  by (auto simp: handler_defs Let_def split: sum.splits http.splits prod.splits)

section \<open>The claims\<close>

subsection \<open>C1: the fallback sentence on a feed of canceled arrivals\<close>

text \<open>
  C1. The claim: on a feed whose arrivals are all canceled, the sentence
  \<open>Sorry, only canceled arrivals were found.\<close> is appended exactly once, after the scan,
  however many canceled records there are. The code tests \<open>foundArrival\<close> inside the
  callback, so the sentence is appended once per canceled record: on the feed below, with
  two canceled arrivals, the narration holds it twice.
\<close>

theorem fallback_repeated_per_canceled_record:
  "processXml
     (Some \<lparr>stopTimes = Some \<lparr>stop = Arr [Str ''214''], timestamp = Arr [Str ''1:00 PM''],
        arrival = Some
          [\<lparr>route = Arr [Str ''1''], headsign = Arr [Str ''KALIHI''],
            stopTime = Arr [Str ''9:35am''], estimated = Arr [Str ''1''],
            canceled = Arr [Str ''1'']\<rparr>,
           \<lparr>route = Arr [Str ''2''], headsign = Arr [Str ''WAIKIKI''],
            stopTime = Arr [Str ''9:40am''], estimated = Arr [Str ''0''],
            canceled = Arr [Str ''1'']\<rparr>]\<rparr>\<rparr>)
     Map.empty
   = Inr (''Here are the arrivals for  bus stop 214.'' @ newline
            @ '' Sorry, only canceled arrivals were found..'' @ newline
            @ '' Sorry, only canceled arrivals were found..'' @ newline,
          [''1'' \<mapsto> Arr [Str ''9:35am''], ''2'' \<mapsto> Arr [Str ''9:40am'']])"
  by (simp add: feed_defs flag_defs)

subsection \<open>C2: the re-prompt of the two entry paths\<close>

text \<open>
  The claim: both paths answer a non-numeric or absent stop value with the same pair of
  texts. On the value \<open>abc\<close> the one-shot path says \<open>bus stop\<close> where the dialog path says
  \<open>stop\<close>.
\<close>

theorem reprompt_pairs_differ:
  "handleOneshotBusRequest (\<lambda>n. ErrorEvent)
       \<lparr>slots = Some \<lparr>Stop = Some \<lparr>slotValue = Str ''abc''\<rparr>\<rparr>\<rparr>
       \<lparr>requests = [], routes = Map.empty\<rparr>
     = Inr (ask ''sorry, I did not hear the bus stop, please say that again''
                ''please say the bus stop again'', \<lparr>requests = [], routes = Map.empty\<rparr>)
   \<and> handleStopDialogRequest (\<lambda>n. ErrorEvent)
       \<lparr>slots = Some \<lparr>Stop = Some \<lparr>slotValue = Str ''abc''\<rparr>\<rparr>\<rparr>
       \<lparr>requests = [], routes = Map.empty\<rparr>
     = Inr (ask ''sorry, I did not hear the stop, please say that again''
                ''please say the stop again'', \<lparr>requests = [], routes = Map.empty\<rparr>)
   \<and> handleOneshotBusRequest (\<lambda>n. ErrorEvent)
       \<lparr>slots = Some \<lparr>Stop = Some \<lparr>slotValue = Str ''abc''\<rparr>\<rparr>\<rparr>
       \<lparr>requests = [], routes = Map.empty\<rparr>
     \<noteq> handleStopDialogRequest (\<lambda>n. ErrorEvent)
       \<lparr>slots = Some \<lparr>Stop = Some \<lparr>slotValue = Str ''abc''\<rparr>\<rparr>\<rparr>
       \<lparr>requests = [], routes = Map.empty\<rparr>"
  by (simp add: handler_defs parse_defs)

text \<open>
  C2, as amended. For every stop slot that is present and whose value \<open>parseInt\<close> reads as
  NaN (no value, null, or a string without a leading integer), the dialog path asks
  \<open>sorry, I did not hear the stop, please say that again\<close> with the reprompt
  \<open>please say the stop again\<close>, and the one-shot path asks
  \<open>sorry, I did not hear the bus stop, please say that again\<close> with the reprompt
  \<open>please say the bus stop again\<close>; neither changes the state.
\<close>

theorem reprompt_pair_of_each_path:
  assumes "slots i = Some ss" and "Stop ss = Some sl" and "parseInt (slotValue sl) = NaN"
  shows "handleStopDialogRequest server i w
           = Inr (ask ''sorry, I did not hear the stop, please say that again''
                      ''please say the stop again'', w)
       \<and> handleOneshotBusRequest server i w
           = Inr (ask ''sorry, I did not hear the bus stop, please say that again''
                      ''please say the bus stop again'', w)"
  using assms by (simp add: handleStopDialogRequest_def handleOneshotBusRequest_def)

theorem reprompt_pair_of_each_path_witness:
  "slots \<lparr>slots = Some \<lparr>Stop = Some \<lparr>slotValue = Null\<rparr>\<rparr>\<rparr>
     = Some \<lparr>Stop = Some \<lparr>slotValue = Null\<rparr>\<rparr>
   \<and> Stop \<lparr>Stop = Some \<lparr>slotValue = Null\<rparr>\<rparr> = Some \<lparr>slotValue = Null\<rparr>
   \<and> parseInt (slotValue \<lparr>slotValue = Null\<rparr>) = NaN
   \<and> handleStopDialogRequest (\<lambda>n. ErrorEvent)
         \<lparr>slots = Some \<lparr>Stop = Some \<lparr>slotValue = Null\<rparr>\<rparr>\<rparr>
         \<lparr>requests = [], routes = Map.empty\<rparr>
       = Inr (ask ''sorry, I did not hear the stop, please say that again''
                  ''please say the stop again'', \<lparr>requests = [], routes = Map.empty\<rparr>)
   \<and> handleOneshotBusRequest (\<lambda>n. ErrorEvent)
         \<lparr>slots = Some \<lparr>Stop = Some \<lparr>slotValue = Null\<rparr>\<rparr>\<rparr>
         \<lparr>requests = [], routes = Map.empty\<rparr>
       = Inr (ask ''sorry, I did not hear the bus stop, please say that again''
                  ''please say the bus stop again'', \<lparr>requests = [], routes = Map.empty\<rparr>)"
proof -
  have p: "parseInt (slotValue \<lparr>slotValue = Null\<rparr>) = NaN"
    by (simp add: parse_defs)
  have s: "slots \<lparr>slots = Some \<lparr>Stop = Some \<lparr>slotValue = Null\<rparr>\<rparr>\<rparr>
             = Some \<lparr>Stop = Some \<lparr>slotValue = Null\<rparr>\<rparr>"
    by simp
  have t: "Stop \<lparr>Stop = Some \<lparr>slotValue = Null\<rparr>\<rparr> = Some \<lparr>slotValue = Null\<rparr>"
    by simp
  from reprompt_pair_of_each_path
         [OF s t p, of "\<lambda>n. ErrorEvent" "\<lparr>requests = [], routes = Map.empty\<rparr>"] p
  show ?thesis by simp
qed

subsection \<open>C3: which stop values reach the fetch\<close>

text \<open>
  The claim: a value that parses to a non-positive number is answered with a re-prompt
  and never reaches the fetch. The handlers only test \<open>isNaN\<close>: the value \<open>-5\<close> is fetched
  on both paths.
\<close>

theorem nonpositive_stop_reaches_fetch:
  "parseInt (Str ''-5'') = Num (- 5)
   \<and> handleStopDialogRequest (\<lambda>n. ErrorEvent)
       \<lparr>slots = Some \<lparr>Stop = Some \<lparr>slotValue = Str ''-5''\<rparr>\<rparr>\<rparr>
       \<lparr>requests = [], routes = Map.empty\<rparr>
     = Inr (tellWithCard ''Sorry there was an error contacting the bus service''
              ''TheBusHonolulu'' ''Sorry there was an error contacting the bus service'',
            \<lparr>requests = [Num (- 5)], routes = Map.empty\<rparr>)
   \<and> handleOneshotBusRequest (\<lambda>n. ErrorEvent)
       \<lparr>slots = Some \<lparr>Stop = Some \<lparr>slotValue = Str ''-5''\<rparr>\<rparr>\<rparr>
       \<lparr>requests = [], routes = Map.empty\<rparr>
     = Inr (tellWithCard ''Sorry there was an error contacting the bus service''
              ''TheBusHonolulu'' ''Sorry there was an error contacting the bus service'',
            \<lparr>requests = [Num (- 5)], routes = Map.empty\<rparr>)"
  by (simp add: handler_defs parse_defs)

text \<open>
  C3, as amended. With the slots of the intent present: the dialog path answers an absent
  stop slot with its re-prompt; a present slot whose value \<open>parseInt\<close> reads as NaN is
  answered with the re-prompt of its path, the state unchanged, so that no request is
  issued;
  a present slot whose value \<open>parseInt\<close> reads as a number \<open>n\<close>, of any sign, makes both
  paths run the fetch path on \<open>n\<close>; and the fetch path, when it returns, has issued exactly
  one request, for \<open>n\<close>, and answers with a tell and a card.
\<close>

theorem fetch_reached_iff_parseInt_number:
  assumes "slots i = Some ss"
  shows "(Stop ss = None \<longrightarrow>
            handleStopDialogRequest server i w
              = Inr (ask ''sorry, I did not hear the stop, please say that again''
                         ''please say the stop again'', w))
       \<and> (\<forall>sl. Stop ss = Some sl \<and> parseInt (slotValue sl) = NaN \<longrightarrow>
            handleStopDialogRequest server i w
              = Inr (ask ''sorry, I did not hear the stop, please say that again''
                         ''please say the stop again'', w)
          \<and> handleOneshotBusRequest server i w
              = Inr (ask ''sorry, I did not hear the bus stop, please say that again''
                         ''please say the bus stop again'', w))
       \<and> (\<forall>sl n. Stop ss = Some sl \<and> parseInt (slotValue sl) = Num n \<longrightarrow>
            handleStopDialogRequest server i w = getFinalBusResponse server (Num n) w
          \<and> handleOneshotBusRequest server i w = getFinalBusResponse server (Num n) w)
       \<and> (\<forall>n resp w'. getFinalBusResponse server (Num n) w = Inr (resp, w') \<longrightarrow>
            requests w' = requests w @ [Num n]
          \<and> (\<exists>speech. resp = tellWithCard speech ''TheBusHonolulu'' speech))"
proof -
  have a: "Stop ss = None \<longrightarrow>
            handleStopDialogRequest server i w
              = Inr (ask ''sorry, I did not hear the stop, please say that again''
                         ''please say the stop again'', w)"
    using assms by (simp add: handleStopDialogRequest_def)
  have b: "\<forall>sl. Stop ss = Some sl \<and> parseInt (slotValue sl) = NaN \<longrightarrow>
            handleStopDialogRequest server i w
              = Inr (ask ''sorry, I did not hear the stop, please say that again''
                         ''please say the stop again'', w)
          \<and> handleOneshotBusRequest server i w
              = Inr (ask ''sorry, I did not hear the bus stop, please say that again''
                         ''please say the bus stop again'', w)"
    using assms by (simp add: handleStopDialogRequest_def handleOneshotBusRequest_def)
  have u: "parseInt Undefined = NaN" "parseInt Null = NaN"
    by (simp_all add: parse_defs)
  have c: "\<forall>sl n. Stop ss = Some sl \<and> parseInt (slotValue sl) = Num n \<longrightarrow>
            handleStopDialogRequest server i w = getFinalBusResponse server (Num n) w
          \<and> handleOneshotBusRequest server i w = getFinalBusResponse server (Num n) w"
    using assms u by (auto simp: handleStopDialogRequest_def handleOneshotBusRequest_def)
  have d: "\<forall>n resp w'. getFinalBusResponse server (Num n) w = Inr (resp, w') \<longrightarrow>
            requests w' = requests w @ [Num n]
          \<and> (\<exists>speech. resp = tellWithCard speech ''TheBusHonolulu'' speech)"
    using getFinalBusResponse_requests by blast
  from a b c d show ?thesis by blast
qed

theorem fetch_reached_iff_parseInt_number_witness:
  "slots \<lparr>slots = Some \<lparr>Stop = Some \<lparr>slotValue = Str ''0''\<rparr>\<rparr>\<rparr>
     = Some \<lparr>Stop = Some \<lparr>slotValue = Str ''0''\<rparr>\<rparr>
   \<and> parseInt (Str ''0'') = Num 0
   \<and> handleStopDialogRequest (\<lambda>n. ErrorEvent)
        \<lparr>slots = Some \<lparr>Stop = Some \<lparr>slotValue = Str ''0''\<rparr>\<rparr>\<rparr>
        \<lparr>requests = [], routes = Map.empty\<rparr>
      = getFinalBusResponse (\<lambda>n. ErrorEvent) (Num 0) \<lparr>requests = [], routes = Map.empty\<rparr>
   \<and> handleOneshotBusRequest (\<lambda>n. ErrorEvent)
        \<lparr>slots = Some \<lparr>Stop = Some \<lparr>slotValue = Str ''0''\<rparr>\<rparr>\<rparr>
        \<lparr>requests = [], routes = Map.empty\<rparr>
      = getFinalBusResponse (\<lambda>n. ErrorEvent) (Num 0) \<lparr>requests = [], routes = Map.empty\<rparr>
   \<and> getFinalBusResponse (\<lambda>n. ErrorEvent) (Num 0) \<lparr>requests = [], routes = Map.empty\<rparr>
      = Inr (tellWithCard ''Sorry there was an error contacting the bus service''
               ''TheBusHonolulu'' ''Sorry there was an error contacting the bus service'',
             \<lparr>requests = [Num 0], routes = Map.empty\<rparr>)
   \<and> parseInt (Str ''two'') = NaN
   \<and> handleStopDialogRequest (\<lambda>n. ErrorEvent)
        \<lparr>slots = Some \<lparr>Stop = Some \<lparr>slotValue = Str ''two''\<rparr>\<rparr>\<rparr>
        \<lparr>requests = [], routes = Map.empty\<rparr>
      = Inr (ask ''sorry, I did not hear the stop, please say that again''
                 ''please say the stop again'', \<lparr>requests = [], routes = Map.empty\<rparr>)
   \<and> handleStopDialogRequest (\<lambda>n. ErrorEvent) \<lparr>slots = Some \<lparr>Stop = None\<rparr>\<rparr>
        \<lparr>requests = [], routes = Map.empty\<rparr>
      = Inr (ask ''sorry, I did not hear the stop, please say that again''
                 ''please say the stop again'', \<lparr>requests = [], routes = Map.empty\<rparr>)"
proof -
  let ?ss = "\<lparr>Stop = Some \<lparr>slotValue = Str ''0''\<rparr>\<rparr>"
  let ?i = "\<lparr>slots = Some ?ss\<rparr>"
  let ?w = "\<lparr>requests = [], routes = Map.empty\<rparr>"
  have s: "slots ?i = Some ?ss" by simp
  have p: "parseInt (Str ''0'') = Num 0" by (simp add: parse_defs)
  have g: "getFinalBusResponse (\<lambda>n. ErrorEvent) (Num 0) ?w
      = Inr (tellWithCard ''Sorry there was an error contacting the bus service''
               ''TheBusHonolulu'' ''Sorry there was an error contacting the bus service'',
             \<lparr>requests = [Num 0], routes = Map.empty\<rparr>)"
    by (simp add: handler_defs)
  from fetch_reached_iff_parseInt_number [OF s, of "\<lambda>n. ErrorEvent" ?w] p
  have num: "handleStopDialogRequest (\<lambda>n. ErrorEvent) ?i ?w
          = getFinalBusResponse (\<lambda>n. ErrorEvent) (Num 0) ?w
      \<and> handleOneshotBusRequest (\<lambda>n. ErrorEvent) ?i ?w
          = getFinalBusResponse (\<lambda>n. ErrorEvent) (Num 0) ?w"
    by simp
  let ?ss2 = "\<lparr>Stop = Some \<lparr>slotValue = Str ''two''\<rparr>\<rparr>"
  have s2: "slots \<lparr>slots = Some ?ss2\<rparr> = Some ?ss2" by simp
  have p2: "parseInt (Str ''two'') = NaN" by (simp add: parse_defs)
  from fetch_reached_iff_parseInt_number [OF s2, of "\<lambda>n. ErrorEvent" ?w] p2
  have nan: "handleStopDialogRequest (\<lambda>n. ErrorEvent) \<lparr>slots = Some ?ss2\<rparr> ?w
      = Inr (ask ''sorry, I did not hear the stop, please say that again''
                 ''please say the stop again'', ?w)"
    by simp
  let ?ss3 = "\<lparr>Stop = None\<rparr>"
  have s3: "slots \<lparr>slots = Some ?ss3\<rparr> = Some ?ss3" by simp
  from fetch_reached_iff_parseInt_number [OF s3, of "\<lambda>n. ErrorEvent" ?w]
  have absent: "handleStopDialogRequest (\<lambda>n. ErrorEvent) \<lparr>slots = Some ?ss3\<rparr> ?w
      = Inr (ask ''sorry, I did not hear the stop, please say that again''
                 ''please say the stop again'', ?w)"
    by simp
  from s p g num p2 nan absent show ?thesis by simp
qed

subsection \<open>C4: a result without the expected structure\<close>

text \<open>
  The claim: on a deserialized value without \<open>stopTimes\<close> the translation returns an
  error narration and raises nothing. The code reads \<open>result.stopTimes.arrival\<close> at once:
  the TypeError leaves \<open>processXml\<close> and the fetch.
\<close>

theorem processXml_throws_without_stopTimes:
  "processXml (Some \<lparr>stopTimes = None\<rparr>) Map.empty = Inl TypeError
   \<and> getFinalBusResponse (\<lambda>n. End (Some \<lparr>stopTimes = None\<rparr>)) (Num 214)
         \<lparr>requests = [], routes = Map.empty\<rparr>
       = Inl TypeError"
  by (simp add: processXml_def handler_defs)

text \<open>
  C4, as amended. On an undefined result and on a result without \<open>stopTimes\<close> the
  translation raises a TypeError, which also ends the fetch path with no answer; on a
  result with \<open>stopTimes\<close> and no \<open>arrival\<close> field it raises nothing and returns the
  narration of that case, for any \<open>stop\<close> and \<open>timestamp\<close>, leaving \<open>routes\<close> as it was.
\<close>

theorem processXml_total_only_with_stopTimes:
  "processXml None r = Inl TypeError
   \<and> processXml (Some \<lparr>stopTimes = None\<rparr>) r = Inl TypeError
   \<and> getFinalBusResponse (\<lambda>n. End None) stopValue w = Inl TypeError
   \<and> getFinalBusResponse (\<lambda>n. End (Some \<lparr>stopTimes = None\<rparr>)) stopValue w = Inl TypeError
   \<and> processXml (Some \<lparr>stopTimes = Some \<lparr>stop = s, timestamp = t, arrival = None\<rparr>\<rparr>) r
       = Inr (''Sorry, no arrivals found for stop'' @ toString s
                @ ''.  Are you sure this is a valid stop?'', r)"
  by (simp add: processXml_def handler_defs)

subsection \<open>C5: a transport failure\<close>

text \<open>
  C5. When \<open>http.get\<close> ends in the \<open>error\<close> event, the fetch path has issued exactly one
  request (the stop is appended once to the requests), and it answers with a tell and a
  card whose speech and content are exactly
  \<open>Sorry there was an error contacting the bus service\<close>.
\<close>

theorem transport_failure_fixed_tell:
  assumes "server stopValue = ErrorEvent"
  shows "getFinalBusResponse server stopValue w
           = Inr (tellWithCard ''Sorry there was an error contacting the bus service''
                    ''TheBusHonolulu'' ''Sorry there was an error contacting the bus service'',
                  w\<lparr>requests := requests w @ [stopValue]\<rparr>)"
  using assms by (simp add: handler_defs)

theorem transport_failure_fixed_tell_witness:
  "(\<lambda>n. ErrorEvent) (Num 214) = ErrorEvent
   \<and> getFinalBusResponse (\<lambda>n. ErrorEvent) (Num 214) \<lparr>requests = [], routes = Map.empty\<rparr>
       = Inr (tellWithCard ''Sorry there was an error contacting the bus service''
                ''TheBusHonolulu'' ''Sorry there was an error contacting the bus service'',
              \<lparr>requests = [Num 214], routes = Map.empty\<rparr>)"
  using transport_failure_fixed_tell
          [of "\<lambda>n. ErrorEvent" "Num 214" "\<lparr>requests = [], routes = Map.empty\<rparr>"]
  by simp

subsection \<open>C6: a feed without an arrivals field\<close>

text \<open>
  The claim: the narration is exactly the template
  \<open>Sorry, no arrivals found for stop {stop}. Are you sure this is a valid stop?\<close>. The
  code's text has no space before the stop and two after the full stop.
\<close>

theorem no_arrivals_template_mismatch:
  "processXml (Some \<lparr>stopTimes = Some \<lparr>stop = Arr [Str ''214''],
                 timestamp = Arr [Str ''1:00 PM''], arrival = None\<rparr>\<rparr>) Map.empty
     = Inr (''Sorry, no arrivals found for stop214.  Are you sure this is a valid stop?'',
            Map.empty)
   \<and> processXml (Some \<lparr>stopTimes = Some \<lparr>stop = Arr [Str ''214''],
                 timestamp = Arr [Str ''1:00 PM''], arrival = None\<rparr>\<rparr>) Map.empty
     \<noteq> Inr (''Sorry, no arrivals found for stop 214. Are you sure this is a valid stop?'',
            Map.empty)"
  by (simp add: processXml_def)

text \<open>
  C6, as amended. For every feed whose \<open>stopTimes\<close> has no \<open>arrival\<close> field the translation
  returns a narration that begins with \<open>Sorry, no arrivals found for stop\<close> and ends with
  the feed's own \<open>stop\<close> followed by a full stop, two spaces and
  \<open>Are you sure this is a valid stop?\<close>; \<open>routes\<close> is unchanged; and no feed that has an
  \<open>arrival\<close> field, whatever its records, is given the same narration.
\<close>

theorem no_arrivals_narration:
  assumes "arrival st = None"
  shows "\<exists>n. processXml (Some \<lparr>stopTimes = Some st\<rparr>) r = Inr (n, r)
           \<and> prefix ''Sorry, no arrivals found for stop'' n
           \<and> suffix (toString (stop st) @ ''.  Are you sure this is a valid stop?'') n
           \<and> (\<forall>st2 r2 n2 r2'. arrival st2 \<noteq> None
                  \<and> processXml (Some \<lparr>stopTimes = Some st2\<rparr>) r2 = Inr (n2, r2')
                \<longrightarrow> n2 \<noteq> n)"
proof -
  let ?n = "''Sorry, no arrivals found for stop'' @ toString (stop st)
              @ ''.  Are you sure this is a valid stop?''"
  have 1: "processXml (Some \<lparr>stopTimes = Some st\<rparr>) r = Inr (?n, r)"
    using assms by (simp add: processXml_def)
  have 2: "prefix ''Sorry, no arrivals found for stop'' ?n"
    by (simp add: prefix_def)
  have 3: "suffix (toString (stop st) @ ''.  Are you sure this is a valid stop?'') ?n"
    by (simp add: suffix_def)
  have 4: "n2 \<noteq> ?n"
    if "arrival st2 \<noteq> None"
      and "processXml (Some \<lparr>stopTimes = Some st2\<rparr>) r2 = Inr (n2, r2')"
    for st2 r2 n2 r2'
  proof -
    from that(1) obtain as where "arrival st2 = Some as" by auto
    from processXml_with_arrivals_prefix [OF this that(2)]
    show ?thesis by (auto simp: prefix_def)
  qed
  from 1 2 3 4 show ?thesis by blast
qed

theorem no_arrivals_narration_witness:
  "arrival \<lparr>stop = Arr [Str ''214''], timestamp = Arr [Str ''1:00 PM''], arrival = None\<rparr> = None
   \<and> processXml (Some \<lparr>stopTimes = Some \<lparr>stop = Arr [Str ''214''],
                   timestamp = Arr [Str ''1:00 PM''], arrival = None\<rparr>\<rparr>) Map.empty
       = Inr (''Sorry, no arrivals found for stop214.  Are you sure this is a valid stop?'',
              Map.empty)
   \<and> prefix ''Sorry, no arrivals found for stop''
        ''Sorry, no arrivals found for stop214.  Are you sure this is a valid stop?''
   \<and> suffix ''214.  Are you sure this is a valid stop?''
        ''Sorry, no arrivals found for stop214.  Are you sure this is a valid stop?''
   \<and> processXml (Some \<lparr>stopTimes = Some \<lparr>stop = Arr [Str ''214''],
                   timestamp = Arr [Str ''1:00 PM''], arrival = Some []\<rparr>\<rparr>) Map.empty
       = Inr (''Here are the arrivals for  bus stop 214.'' @ newline, Map.empty)
   \<and> ''Here are the arrivals for  bus stop 214.'' @ newline
       \<noteq> ''Sorry, no arrivals found for stop214.  Are you sure this is a valid stop?''"
proof -
  let ?st = "\<lparr>stop = Arr [Str ''214''], timestamp = Arr [Str ''1:00 PM''], arrival = None\<rparr>"
  let ?st2 = "\<lparr>stop = Arr [Str ''214''], timestamp = Arr [Str ''1:00 PM''],
               arrival = Some []\<rparr>"
  let ?n = "''Sorry, no arrivals found for stop214.  Are you sure this is a valid stop?''"
  have h: "arrival ?st = None" by simp
  have e: "processXml (Some \<lparr>stopTimes = Some ?st\<rparr>) Map.empty = Inr (?n, Map.empty)"
    by (simp add: processXml_def)
  have e2: "processXml (Some \<lparr>stopTimes = Some ?st2\<rparr>) Map.empty
              = Inr (''Here are the arrivals for  bus stop 214.'' @ newline, Map.empty)"
    by (simp add: processXml_def)
  from no_arrivals_narration [OF h, of Map.empty] e
  have "prefix ''Sorry, no arrivals found for stop'' ?n
      \<and> suffix (toString (stop ?st) @ ''.  Are you sure this is a valid stop?'') ?n
      \<and> (\<forall>st2 r2 n2 r2'. arrival st2 \<noteq> None
                  \<and> processXml (Some \<lparr>stopTimes = Some st2\<rparr>) r2 = Inr (n2, r2')
                \<longrightarrow> n2 \<noteq> ?n)"
    by simp
  moreover from this e2 have "''Here are the arrivals for  bus stop 214.'' @ newline \<noteq> ?n"
    by (simp add: newline_def)
  ultimately show ?thesis using h e e2 by simp
qed

subsection \<open>C7: the one-shot scenario\<close>

text \<open>
  C7. The intent \<open>OneshotBusIntent\<close> with the stop value \<open>214\<close>, on a feed for stop 214 with
  one arrival (route 1, headsign \<open>UH Manoa\<close>, stop time \<open>9:35am\<close>, estimated 1, canceled 0,
  each as the XML parser delivers it): the handler fetches stop 214 once and answers with
  a tell and a card whose narration contains the sentence
  \<open>Route 1 heading to University of Hawaii Manoa arriving at 9:35am estimated by GPS.\<close>
\<close>

theorem oneshot_scenario_narration:
  "map_option
     (\<lambda>handler. handler
       (\<lambda>n. End (Some \<lparr>stopTimes = Some \<lparr>stop = Arr [Str ''214''],
        timestamp = Arr [Str ''1:00 PM''],
        arrival = Some [\<lparr>route = Arr [Str ''1''], headsign = Arr [Str ''UH Manoa''],
                         stopTime = Arr [Str ''9:35am''], estimated = Arr [Str ''1''],
                         canceled = Arr [Str ''0'']\<rparr>]\<rparr>\<rparr>))
       \<lparr>slots = Some \<lparr>Stop = Some \<lparr>slotValue = Str ''214''\<rparr>\<rparr>\<rparr>
       \<lparr>requests = [], routes = Map.empty\<rparr>)
     (intentHandlers ''OneshotBusIntent'')
   = Some (Inr (tellWithCard
            (''Here are the arrivals for  bus stop 214.'' @ newline @ '' ''
              @ ''Route 1 heading to University of Hawaii Manoa arriving at 9:35am estimated by GPS.''
              @ newline)
            ''TheBusHonolulu''
            (''Here are the arrivals for  bus stop 214.'' @ newline @ '' ''
              @ ''Route 1 heading to University of Hawaii Manoa arriving at 9:35am estimated by GPS.''
              @ newline),
          \<lparr>requests = [Num 214], routes = [''1'' \<mapsto> Arr [Str ''9:35am'']]\<rparr>))"
  by (simp add: intentHandlers_def handler_defs parse_defs feed_defs flag_defs)

subsection \<open>C8: the speech and the card of the final answer\<close>

text \<open>
  C8. For every speech \<open>S\<close> that the fetch hands to the callback of \<open>getFinalBusResponse\<close>,
  the rendered reply carries \<open>S\<close> unchanged as its speech and as the content of its card,
  titled \<open>TheBusHonolulu\<close>, and ends the session.
\<close>

theorem tell_preserves_speech_in_card:
  "replySpeech (render (responseCallback S)) = S
   \<and> replyCard (render (responseCallback S)) = Some (''TheBusHonolulu'', S)
   \<and> shouldEndSession (render (responseCallback S))"
  by (simp add: responseCallback_def)

subsection \<open>C9: the terminal of every record\<close>

text \<open>
  C9. Whenever the callback returns on a record, the new narration is the old one, then
  some text \<open>m\<close> of this record, then a full stop and a newline appended by this call: the
  terminal is appended on every record, narrated or skipped, whatever the narration held
  before. When the record is one the narration skips (its canceled flag is not at most 0,
  as the flag 1 of a canceled arrival) and an arrival was narrated before, \<open>m\<close> is empty:
  the record contributes the bare terminal and nothing else. When no arrival was narrated
  before, a skipped record contributes the sentence on canceled arrivals and the terminal.
\<close>

theorem terminal_appended_for_each_record:
  assumes "forEachBody a (r, l) = Inr (r', l')"
  shows "(\<exists>m. speechOutput l' = speechOutput l @ m @ ''.'' @ newline)
       \<and> prefix (speechOutput l) (speechOutput l')
       \<and> suffix (''.'' @ newline) (speechOutput l')
       \<and> (\<forall>c. toNumber (canceled a) = Some c \<and> \<not> leZero c \<and> foundArrival l
            \<longrightarrow> speechOutput l' = speechOutput l @ ''.'' @ newline)
       \<and> (\<forall>c. toNumber (canceled a) = Some c \<and> \<not> leZero c \<and> \<not> foundArrival l
            \<longrightarrow> speechOutput l' = speechOutput l
                  @ '' Sorry, only canceled arrivals were found.'' @ ''.'' @ newline)"
proof -
  from assms obtain c where c: "toNumber (canceled a) = Some c"
    by (rule forEachBody_flag)
  show ?thesis
  proof (cases "leZero c")
    case True
    let ?m = "'' Route '' @ toString (route a)
                 @ '' heading to '' @ replace ''UH'' ''University of Hawaii'' (toString (headsign a))
                 @ '' arriving at '' @ toString (stopTime a)
                 @ (if truthy (estimated a) then '' estimated by GPS''
                    else '' scheduled time no GPS'')
                 @ (if eqMinusOne c then '' was canceled not canceled anymore'' else [])"
    from forEachBody_narrate [OF assms c True]
    have eq: "speechOutput l' = speechOutput l @ ?m @ ''.'' @ newline"
      by simp
    then have ex: "\<exists>m. speechOutput l' = speechOutput l @ m @ ''.'' @ newline"
      by blast
    from eq have pre: "prefix (speechOutput l) (speechOutput l')"
      by simp
    from eq have "speechOutput l' = (speechOutput l @ ?m) @ ''.'' @ newline"
      by simp
    then have suf: "suffix (''.'' @ newline) (speechOutput l')"
      unfolding suffix_def by blast
    from ex pre suf c True show ?thesis by simp
  next
    case False
    let ?m = "if foundArrival l then [] else '' Sorry, only canceled arrivals were found.''"
    from forEachBody_skip [OF assms c False]
    have eq: "speechOutput l' = speechOutput l @ ?m @ ''.'' @ newline"
      by simp
    then have ex: "\<exists>m. speechOutput l' = speechOutput l @ m @ ''.'' @ newline"
      by blast
    from eq have pre: "prefix (speechOutput l) (speechOutput l')"
      by simp
    from eq have "speechOutput l' = (speechOutput l @ ?m) @ ''.'' @ newline"
      by simp
    then have suf: "suffix (''.'' @ newline) (speechOutput l')"
      unfolding suffix_def by blast
    from ex pre suf eq c False show ?thesis by simp
  qed
qed

theorem terminal_appended_for_each_record_witness:
  "forEachBody \<lparr>route = Arr [Str ''2''], headsign = Arr [Str ''Waikiki''],
       stopTime = Arr [Str ''9:40am''], estimated = Arr [Str ''0''], canceled = Arr [Str ''1'']\<rparr>
     (Map.empty, \<lparr>speechOutput = '' Route 1.'' @ newline, foundCanceled = False,
                  foundArrival = True\<rparr>)
   = Inr ([''2'' \<mapsto> Arr [Str ''9:40am'']],
          \<lparr>speechOutput = '' Route 1.'' @ newline @ ''.'' @ newline, foundCanceled = True,
           foundArrival = True\<rparr>)
   \<and> toNumber (Arr [Str ''1'']) = Some (Num 1) \<and> \<not> leZero (Num 1)
   \<and> '' Route 1.'' @ newline @ ''.'' @ newline
       = ('' Route 1.'' @ newline) @ [] @ ''.'' @ newline
   \<and> prefix ('' Route 1.'' @ newline) ('' Route 1.'' @ newline @ ''.'' @ newline)
   \<and> suffix (''.'' @ newline) ('' Route 1.'' @ newline @ ''.'' @ newline)
   \<and> processXml
       (Some \<lparr>stopTimes = Some \<lparr>stop = Arr [Str ''214''], timestamp = Arr [Str ''1:00 PM''],
          arrival = Some
            [\<lparr>route = Arr [Str ''1''], headsign = Arr [Str ''KALIHI''],
              stopTime = Arr [Str ''9:35am''], estimated = Arr [Str ''1''],
              canceled = Arr [Str ''0'']\<rparr>,
             \<lparr>route = Arr [Str ''2''], headsign = Arr [Str ''Waikiki''],
              stopTime = Arr [Str ''9:40am''], estimated = Arr [Str ''0''],
              canceled = Arr [Str ''1'']\<rparr>]\<rparr>\<rparr>)
       Map.empty
     = Inr (''Here are the arrivals for  bus stop 214.'' @ newline
              @ '' Route 1 heading to KALIHI arriving at 9:35am estimated by GPS.'' @ newline
              @ ''.'' @ newline,
            [''1'' \<mapsto> Arr [Str ''9:35am''], ''2'' \<mapsto> Arr [Str ''9:40am'']])"
proof -
  have t: "processXml
       (Some \<lparr>stopTimes = Some \<lparr>stop = Arr [Str ''214''], timestamp = Arr [Str ''1:00 PM''],
          arrival = Some
            [\<lparr>route = Arr [Str ''1''], headsign = Arr [Str ''KALIHI''],
              stopTime = Arr [Str ''9:35am''], estimated = Arr [Str ''1''],
              canceled = Arr [Str ''0'']\<rparr>,
             \<lparr>route = Arr [Str ''2''], headsign = Arr [Str ''Waikiki''],
              stopTime = Arr [Str ''9:40am''], estimated = Arr [Str ''0''],
              canceled = Arr [Str ''1'']\<rparr>]\<rparr>\<rparr>)
       Map.empty
     = Inr (''Here are the arrivals for  bus stop 214.'' @ newline
              @ '' Route 1 heading to KALIHI arriving at 9:35am estimated by GPS.'' @ newline
              @ ''.'' @ newline,
            [''1'' \<mapsto> Arr [Str ''9:35am''], ''2'' \<mapsto> Arr [Str ''9:40am'']])"
    by (simp add: feed_defs flag_defs)
  have h: "forEachBody \<lparr>route = Arr [Str ''2''], headsign = Arr [Str ''Waikiki''],
       stopTime = Arr [Str ''9:40am''], estimated = Arr [Str ''0''], canceled = Arr [Str ''1'']\<rparr>
     (Map.empty, \<lparr>speechOutput = '' Route 1.'' @ newline, foundCanceled = False,
                  foundArrival = True\<rparr>)
   = Inr ([''2'' \<mapsto> Arr [Str ''9:40am'']],
          \<lparr>speechOutput = '' Route 1.'' @ newline @ ''.'' @ newline, foundCanceled = True,
           foundArrival = True\<rparr>)"
    by (simp add: feed_defs flag_defs)
  have n: "toNumber (Arr [Str ''1'']) = Some (Num 1)"
    by (simp add: flag_defs)
  from terminal_appended_for_each_record [OF h] h n t show ?thesis by simp
qed

subsection \<open>C10: the clause on the estimated flag\<close>



end
